theory Spec2Isabelle
  imports Main
begin

section \<open>JavaScript values and reads\<close>

text \<open>
  The sources are TypeScript. A rejected promise, a failed debug assertion and a property
  read on \<open>undefined\<close> are values of \<open>js_error\<close>; a computation that may throw returns
  \<open>js_error + 'a\<close>. An optional property is an \<open>option\<close>, with \<open>None\<close> for \<open>undefined\<close>.
\<close>

datatype js_error = TypeError | AssertionError | Rejected string

text \<open>
  An array read \<open>xs[i]\<close> yields \<open>undefined\<close> for every index outside \<open>0 .. length - 1\<close>,
  negative ones included; it never throws.
\<close>

definition js_index :: "'a list \<Rightarrow> int \<Rightarrow> 'a option" where
  "js_index xs i = (if 0 \<le> i \<and> i < int (length xs) then Some (xs ! nat i) else None)"

text \<open>\<open>Boolean(v)\<close> on a property that is a boolean or \<open>undefined\<close>.\<close>

definition Boolean :: "bool option \<Rightarrow> bool" where
  "Boolean v = (case v of None \<Rightarrow> False | Some b \<Rightarrow> b)"

section \<open>Data model of the draft-registration wizard\<close>

text \<open>
  Modelled from the spec: the SchemaBlock model (\<open>models/schema-block\<close>) is not among the
  sources. The spec describes a block as an atomic unit of a form, tagged with a group key
  and a block type.
\<close>

record SchemaBlock =
  blockType :: string
  blockGroupKey :: "string option"

text \<open>The interface \<open>SchemaBlockGroup\<close>; every property is optional.\<close>

record SchemaBlockGroup =
  inputType :: "string option"
  labelBlock :: "SchemaBlock option"
  inputBlock :: "SchemaBlock option"
  optionBlocks :: "SchemaBlock list option"
  schemaBlockGroupKey :: "string option"
  registrationResponseKey :: "string option"

text \<open>\<open>PageResponse\<close>: the mapping from a response key to the answer given for it.\<close>

type_synonym PageResponse = "string \<rightharpoonup> string"

text \<open>
  Modelled from the spec: the class \<open>PageManager\<close> (\<open>packages/registration-schema\<close>) is
  not among the sources. The record holds the four properties the manager component reads:
  the heading text, the validity flag, the groups of the page and the change-set, the
  latter as the function that \<open>changeset.get(key)\<close> computes.
\<close>

record PageManager =
  pageHeadingText :: "string option"
  pageIsValid :: "bool option"
  schemaBlockGroups :: "SchemaBlockGroup list option"
  changeSet :: "string \<rightharpoonup> string"

text \<open>
  The draft resource: the result of awaiting its schema, the result of
  \<open>registrationSchema.loadAll('schemaBlocks')\<close> on that schema, and the responses.
\<close>

record RegistrationSchema =
  schemaBlocks :: "js_error + SchemaBlock list"

record DraftRegistration =
  registrationSchema :: "js_error + RegistrationSchema"
  draftResponses :: PageResponse

text \<open>
  The properties of \<open>DraftRegistrationManagerComponent\<close>. \<open>currentPage\<close> is passed in by
  the route and is a page number; \<open>lastPage\<close> and \<open>draftRegistration\<close> have no initial value.
\<close>

record manager =
  draftRegistration :: "DraftRegistration option"
  currentPage :: int
  lastPage :: "int option"
  registrationResponses :: PageResponse
  pageManagers :: "PageManager list"

text \<open>The component as constructed: \<open>registrationResponses = {}\<close>, \<open>pageManagers = []\<close>.\<close>

definition new_manager :: "int \<Rightarrow> manager" where
  "new_manager page =
     \<lparr>draftRegistration = None, currentPage = page, lastPage = None,
      registrationResponses = Map.empty, pageManagers = []\<rparr>"

section \<open>Computed properties\<close>

definition currentPageManager :: "manager \<Rightarrow> PageManager option" where
  "currentPageManager m =
     (if int (length (pageManagers m)) \<ge> currentPage m
      then js_index (pageManagers m) (currentPage m - 1)
      else None)"

definition isValid :: "manager \<Rightarrow> bool" where
  "isValid m = list_all (\<lambda>pageManager. Boolean (pageIsValid pageManager)) (pageManagers m)"

text \<open>
  The getters \<open>nextPageParam\<close> and \<open>prevPageParam\<close>. The formatter \<open>getPageParam\<close>
  (\<open>utils/page-param\<close>) they call is not among the sources and is their first argument:
  a function from a page number and a heading text to a string. Destructuring
  \<open>pageManagers[i]\<close> throws a TypeError when that read is \<open>undefined\<close>.
\<close>

type_synonym page_param_formatter = "int \<Rightarrow> string option \<Rightarrow> string"

definition nextPageParam :: "page_param_formatter \<Rightarrow> manager \<Rightarrow> js_error + string" where
  "nextPageParam getPageParam m =
     (if pageManagers m \<noteq> [] \<and> lastPage m \<noteq> Some (currentPage m) then
        (case js_index (pageManagers m) (currentPage m) of
           None \<Rightarrow> Inl TypeError
         | Some pm \<Rightarrow> Inr (getPageParam (currentPage m + 1) (pageHeadingText pm)))
      else Inr [])"

definition prevPageParam :: "page_param_formatter \<Rightarrow> manager \<Rightarrow> js_error + string" where
  "prevPageParam getPageParam m =
     (if pageManagers m \<noteq> [] \<and> currentPage m > 1 then
        (let pageIndex = currentPage m - 2 in
         case js_index (pageManagers m) pageIndex of
           None \<Rightarrow> Inl TypeError
         | Some pm \<Rightarrow> Inr (getPageParam (currentPage m - 1) (pageHeadingText pm)))
      else Inr [])"

text \<open>
  A formatter to run the getters with at concrete states: it puts \<open>page-\<close> before the
  heading text and leaves the page number out.
\<close>

definition heading_formatter :: page_param_formatter where
  "heading_formatter pageNumber headingText =
     ''page-'' @ (case headingText of None \<Rightarrow> [] | Some t \<Rightarrow> t)"

section \<open>Tasks of the manager\<close>

text \<open>
  A task returns its outcome, the manager as it leaves it and the calls it made to a
  collaborator, in order.
\<close>

text \<open>
  \<open>initializePageManagers\<close>. \<open>getPages\<close> and the constructor of \<open>PageManager\<close> are not
  among the sources and are the first two arguments. \<open>modelTaskInstance\<close> is \<open>None\<close> when
  the caller passed none, and otherwise what awaiting it gives. The third component of the
  result lists the arguments of the calls to \<open>updateRoute\<close>.
\<close>

definition initializePageManagers ::
  "(SchemaBlock list \<Rightarrow> SchemaBlock list list) \<Rightarrow>
   (SchemaBlock list \<Rightarrow> PageResponse \<Rightarrow> PageManager) \<Rightarrow>
   (js_error + DraftRegistration) option \<Rightarrow> manager \<Rightarrow>
   (js_error + unit) \<times> manager \<times> string option list" where
  "initializePageManagers getPages newPageManager modelTaskInstance m =
     (case modelTaskInstance of
        None \<Rightarrow> (Inl AssertionError, m, [])
      | Some (Inl e) \<Rightarrow> (Inl e, m, [])
      | Some (Inr draft) \<Rightarrow>
          (let m1 = m\<lparr>draftRegistration := Some draft\<rparr> in
           case registrationSchema draft of
             Inl e \<Rightarrow> (Inl e, m1, [])
           | Inr schema \<Rightarrow>
               (case schemaBlocks schema of
                  Inl e \<Rightarrow> (Inl e, m1, [])
                | Inr blocks \<Rightarrow>
                    (let pages = getPages blocks;
                         m2 = m1\<lparr>lastPage := Some (int (length pages)),
                                 registrationResponses := draftResponses draft\<rparr>;
                         pms = map (\<lambda>pageSchemaBlocks.
                                 newPageManager pageSchemaBlocks (registrationResponses m2)) pages;
                         calls = (case pms of [] \<Rightarrow> [] | pm # _ \<Rightarrow> [pageHeadingText pm])
                     in (Inr (), m2\<lparr>pageManagers := pms\<rparr>, calls)))))"

text \<open>
  \<open>changeset.get(registrationResponseKey!)\<close>. The key of a group is optional, and the
  \<open>!\<close> only silences the type checker: the read of a change-set at \<open>undefined\<close> throws.
\<close>

definition changeset_get ::
  "(string \<rightharpoonup> string) \<Rightarrow> string option \<Rightarrow> js_error + string option" where
  "changeset_get changeset key =
     (case key of None \<Rightarrow> Inl TypeError | Some k \<Rightarrow> Inr (changeset k))"

text \<open>
  The \<open>forEach\<close> of \<open>onInput\<close>. The object literal passed to \<open>Object.assign\<close> is
  \<open>{ registrationResponseKey: changeset.get(registrationResponseKey!) }\<close>: its property
  name is the identifier \<open>registrationResponseKey\<close> itself, not the value of the variable.
  A property assigned \<open>undefined\<close> reads as \<open>undefined\<close>, as an absent one does.
  The loop stops at the first group whose read throws; what the groups before it have
  written stays written. The result is the outcome and the responses as the loop leaves
  them.
\<close>

fun merge_groups ::
  "(string \<rightharpoonup> string) \<Rightarrow> SchemaBlockGroup list \<Rightarrow> PageResponse \<Rightarrow>
   (js_error + unit) \<times> PageResponse" where
  "merge_groups changeset [] responses = (Inr (), responses)"
| "merge_groups changeset (g # gs) responses =
     (case changeset_get changeset (registrationResponseKey g) of
        Inl e \<Rightarrow> (Inl e, responses)
      | Inr v \<Rightarrow>
          merge_groups changeset gs (responses(''registrationResponseKey'' := v)))"

text \<open>
  The body of \<open>onInput\<close> after \<open>yield timeout(500)\<close>. \<open>save\<close> is the answer of the draft
  resource to \<open>save()\<close>: \<open>None\<close> when it resolves, the error when it rejects. The third
  component lists the drafts on which \<open>save()\<close> was called. When the loop throws, neither
  \<open>setProperties\<close> nor \<open>save()\<close> is reached.
\<close>

definition onInput_body ::
  "(DraftRegistration \<Rightarrow> js_error option) \<Rightarrow> manager \<Rightarrow>
   (js_error + unit) \<times> manager \<times> DraftRegistration list" where
  "onInput_body save m =
     (case currentPageManager m of
        None \<Rightarrow> (Inr (), m, [])
      | Some pm \<Rightarrow>
          (case schemaBlockGroups pm of
             None \<Rightarrow> (Inr (), m, [])
           | Some groups \<Rightarrow>
               (case merge_groups (changeSet pm) groups (registrationResponses m) of
                  (Inl e, responses) \<Rightarrow> (Inl e, m\<lparr>registrationResponses := responses\<rparr>, [])
                | (Inr _, responses) \<Rightarrow>
                    (let m1 = m\<lparr>registrationResponses := responses\<rparr>
                     in case draftRegistration m1 of
                          None \<Rightarrow> (Inl TypeError, m1, [])
                        | Some d \<Rightarrow>
                            (let d' = d\<lparr>draftResponses := responses\<rparr>;
                                 m2 = m1\<lparr>draftRegistration := Some d'\<rparr>
                             in case save d' of
                                  Some e \<Rightarrow> (Inl e, m2, [d'])
                                | None \<Rightarrow> (Inr (), m2, [d']))))))"

text \<open>\<open>submitDraftRegistration\<close>: one call of \<open>save()\<close> on the draft.\<close>

definition submitDraftRegistration ::
  "(DraftRegistration \<Rightarrow> js_error option) \<Rightarrow> manager \<Rightarrow>
   (js_error + unit) \<times> manager \<times> DraftRegistration list" where
  "submitDraftRegistration save m =
     (case draftRegistration m of
        None \<Rightarrow> (Inl TypeError, m, [])
      | Some d \<Rightarrow>
          (case save d of
             Some e \<Rightarrow> (Inl e, m, [d])
           | None \<Rightarrow> (Inr (), m, [d])))"

text \<open>
  The condition under which the body of \<open>onInput\<close> gets to \<open>save()\<close>: the guard of its
  \<open>if\<close> holds, every group of the current page has a response key, and the draft has
  been set.
\<close>

definition autosave_ready :: "manager \<Rightarrow> bool" where
  "autosave_ready m =
     ((case currentPageManager m of
         None \<Rightarrow> False
       | Some pm \<Rightarrow>
           (case schemaBlockGroups pm of
              None \<Rightarrow> False
            | Some groups \<Rightarrow> list_all (\<lambda>g. registrationResponseKey g \<noteq> None) groups)) \<and>
      draftRegistration m \<noteq> None)"

section \<open>Scheduling of \<open>onInput\<close>\<close>

text \<open>
  A task of ember-concurrency is declared with or without a modifier. Without one, each
  \<open>perform\<close> starts an instance of its own and the instances already started run on;
  with \<open>.restartable()\<close>, a \<open>perform\<close> cancels the instances still running.
  \<open>onInput\<close> is declared as \<open>task(function * ...)\<close> with nothing after it.
\<close>

datatype task_modifier = Unmodified | Restartable

definition onInput_modifier :: task_modifier where
  "onInput_modifier = Unmodified"

text \<open>
  An instance of \<open>onInput\<close> started at time \<open>t\<close> (in milliseconds) sleeps in
  \<open>timeout(500)\<close> and runs the body at \<open>t + 500\<close>. The scheduler state is the list of the
  wake-up times of the sleeping instances, oldest first.
\<close>

fun onInput_perform :: "task_modifier \<Rightarrow> nat \<Rightarrow> nat list \<Rightarrow> nat list" where
  "onInput_perform Unmodified t sleeping = sleeping @ [t + 500]"
| "onInput_perform Restartable t sleeping = [t + 500]"

text \<open>Run the body once for each instance that wakes up, in order.\<close>

fun wake ::
  "(DraftRegistration \<Rightarrow> js_error option) \<Rightarrow> nat list \<Rightarrow> manager \<Rightarrow>
   manager \<times> DraftRegistration list" where
  "wake save [] m = (m, [])"
| "wake save (w # ws) m =
     (case onInput_body save m of
        (_, m', saved) \<Rightarrow>
          (case wake save ws m' of (m'', saved') \<Rightarrow> (m'', saved @ saved')))"

text \<open>
  The inputs arrive at the given times. Before an input at time \<open>t\<close> is taken, the
  instances due at or before \<open>t\<close> wake up; after the last input the remaining ones do.
  The result lists the drafts on which \<open>save()\<close> was called.
\<close>

fun input_events ::
  "(DraftRegistration \<Rightarrow> js_error option) \<Rightarrow> task_modifier \<Rightarrow> nat list \<Rightarrow> nat list \<Rightarrow>
   manager \<Rightarrow> manager \<times> DraftRegistration list" where
  "input_events save modifier [] sleeping m = wake save sleeping m"
| "input_events save modifier (t # ts) sleeping m =
     (case wake save (filter (\<lambda>w. w \<le> t) sleeping) m of
        (m', saved) \<Rightarrow>
          (case input_events save modifier ts
                  (onInput_perform modifier t (filter (\<lambda>w. t < w) sleeping)) m' of
             (m'', saved') \<Rightarrow> (m'', saved @ saved')))"

section \<open>The file-list validator\<close>

text \<open>
  A file as the validator reads it: its name, the error flag and the id of its
  \<open>target\<close> relationship. Of a node the validator reads \<open>id\<close> and \<open>isRoot\<close>; the
  \<open>children\<close> relationship of the Node model gives its descendants.
\<close>

record File =
  name :: string
  isError :: bool
  target :: "string option"

datatype NodeModel = NodeModel (node_id: string) (isRoot: bool) (children: "NodeModel list")

fun descendant_ids :: "NodeModel \<Rightarrow> string list" where
  "descendant_ids (NodeModel i r cs) =
     concat (map (\<lambda>c. node_id c # descendant_ids c) cs)"

text \<open>\<open>names.join(', ')\<close>.\<close>

fun join_comma :: "string list \<Rightarrow> string" where
  "join_comma [] = []"
| "join_comma [x] = x"
| "join_comma (x # y # ys) = x @ '', '' @ join_comma (y # ys)"

text \<open>The \<open>for\<close> loop, with the two arrays it pushes to as accumulators.\<close>

fun classify ::
  "NodeModel \<Rightarrow> File list \<Rightarrow> string list \<times> string list \<Rightarrow> string list \<times> string list" where
  "classify node [] (detachedFiles, deletedFiles) = (detachedFiles, deletedFiles)"
| "classify node (file # files) (detachedFiles, deletedFiles) =
     (if isError file then classify node files (detachedFiles, deletedFiles @ [name file])
      else if target file \<noteq> Some (node_id node)
        then classify node files (detachedFiles @ [name file], deletedFiles)
      else classify node files (detachedFiles, deletedFiles))"

definition projectOrComponent :: "NodeModel \<Rightarrow> string" where
  "projectOrComponent node = (if isRoot node then ''project'' else ''component'')"

definition detached_message :: "NodeModel \<Rightarrow> string list \<Rightarrow> string" where
  "detached_message node detachedFiles =
     ''File(s) '' @ [CHR 0x22] @ join_comma detachedFiles @ [CHR 0x22] @
     '' no longer belong to this '' @ projectOrComponent node @
     '' or any of its registered components.''"

definition deleted_message :: "NodeModel \<Rightarrow> string list \<Rightarrow> string" where
  "deleted_message node deletedFiles =
     ''File(s) '' @ [CHR 0x22] @ join_comma deletedFiles @ [CHR 0x22] @
     '' were deleted from this '' @ projectOrComponent node @ ''.''"

text \<open>The value the predicate resolves to: \<open>true\<close> or an array of messages.\<close>

datatype validation = Valid | Errors "string list"

text \<open>
  \<open>validateFileList(node)(_, newValue)\<close>. \<open>reload\<close> gives a file as it is once
  \<open>file.reload()\<close> has settled. The second component lists the files on which
  \<open>reload()\<close> was called.
\<close>

definition validateFileList ::
  "(File \<Rightarrow> File) \<Rightarrow> NodeModel option \<Rightarrow> File list option \<Rightarrow> validation \<times> File list" where
  "validateFileList reload node newValue =
     (case newValue of
        None \<Rightarrow> (Valid, [])
      | Some files \<Rightarrow>
          (case node of
             None \<Rightarrow> (Valid, [])
           | Some n \<Rightarrow>
               (case classify n (map reload files) ([], []) of
                  (detachedFiles, deletedFiles) \<Rightarrow>
                    (let validationErrors =
                           (if detachedFiles \<noteq> [] then [detached_message n detachedFiles] else []) @
                           (if deletedFiles \<noteq> [] then [deleted_message n deletedFiles] else [])
                     in (if validationErrors = [] then Valid else Errors validationErrors,
                         files)))))"

section \<open>Concrete inputs\<close>

text \<open>
  A wizard of two pages. The first page has one group with the response key \<open>q1\<close>, for
  which the change-set holds the answer \<open>yes\<close>; the second page is not valid.
\<close>

definition q1_group :: SchemaBlockGroup where
  "q1_group =
     \<lparr>inputType = None, labelBlock = None, inputBlock = None, optionBlocks = None,
      schemaBlockGroupKey = None, registrationResponseKey = Some ''q1''\<rparr>"

definition first_page :: PageManager where
  "first_page =
     \<lparr>pageHeadingText = Some ''First'', pageIsValid = Some True,
      schemaBlockGroups = Some [q1_group], changeSet = [''q1'' \<mapsto> ''yes'']\<rparr>"

definition second_page :: PageManager where
  "second_page =
     \<lparr>pageHeadingText = Some ''Second'', pageIsValid = Some False,
      schemaBlockGroups = Some [], changeSet = Map.empty\<rparr>"

definition fresh_draft :: DraftRegistration where
  "fresh_draft =
     \<lparr>registrationSchema = Inr \<lparr>schemaBlocks = Inr []\<rparr>, draftResponses = Map.empty\<rparr>"

definition wizard :: manager where
  "wizard =
     \<lparr>draftRegistration = Some fresh_draft, currentPage = 1, lastPage = Some 2,
      registrationResponses = Map.empty, pageManagers = [first_page, second_page]\<rparr>"

text \<open>A draft resource whose \<open>save()\<close> resolves, and one whose \<open>save()\<close> rejects.\<close>

definition save_resolves :: "DraftRegistration \<Rightarrow> js_error option" where
  "save_resolves d = None"

definition save_rejects :: "DraftRegistration \<Rightarrow> js_error option" where
  "save_rejects d = Some (Rejected ''save failed'')"

text \<open>
  A project with one component, a sibling project, and four files: \<open>file_a\<close> belongs to
  the project, \<open>file_b\<close> to the sibling, the reload of \<open>file_c\<close> fails, and \<open>file_d\<close>
  belongs to the component.
\<close>

definition project :: NodeModel where
  "project = NodeModel ''node1'' True [NodeModel ''comp1'' False []]"

definition file_a :: File where
  "file_a = \<lparr>name = ''a.txt'', isError = False, target = Some ''node1''\<rparr>"

definition file_b :: File where
  "file_b = \<lparr>name = ''b.txt'', isError = False, target = Some ''node2''\<rparr>"

definition file_c :: File where
  "file_c = \<lparr>name = ''c.txt'', isError = False, target = Some ''node2''\<rparr>"

definition file_d :: File where
  "file_d = \<lparr>name = ''d.txt'', isError = False, target = Some ''comp1''\<rparr>"

definition reload_c_fails :: "File \<Rightarrow> File" where
  "reload_c_fails file = (if name file = ''c.txt'' then file\<lparr>isError := True\<rparr> else file)"

section \<open>Properties of the computed properties\<close>

lemma Boolean_iff: "Boolean v \<longleftrightarrow> v = Some True"
  by (cases v) (auto simp: Boolean_def)

lemma isValid_iff: "isValid m \<longleftrightarrow> (\<forall>pm \<in> set (pageManagers m). pageIsValid pm = Some True)"
  by (simp add: isValid_def list_all_iff Boolean_iff)

text \<open>
  C4: \<open>currentPageManager\<close> is undefined exactly when \<open>currentPage\<close> lies outside
  \<open>1 .. pageManagers.length\<close>; inside that range it is the page manager at index
  \<open>currentPage - 1\<close>.
\<close>

theorem currentPageManager_range:
  "(currentPageManager m = None \<longleftrightarrow>
      \<not> (1 \<le> currentPage m \<and> currentPage m \<le> int (length (pageManagers m)))) \<and>
   (1 \<le> currentPage m \<and> currentPage m \<le> int (length (pageManagers m)) \<longrightarrow>
      currentPageManager m = Some (pageManagers m ! nat (currentPage m - 1)))"
  by (auto simp: currentPageManager_def js_index_def)

theorem currentPageManager_range_witness:
  "1 \<le> currentPage wizard \<and> currentPage wizard \<le> int (length (pageManagers wizard)) \<and>
   currentPageManager wizard = Some first_page \<and>
   currentPageManager (wizard\<lparr>currentPage := 0\<rparr>) = None \<and>
   currentPageManager (wizard\<lparr>currentPage := 3\<rparr>) = None"
  using currentPageManager_range [of wizard]
        currentPageManager_range [of "wizard\<lparr>currentPage := 0\<rparr>"]
        currentPageManager_range [of "wizard\<lparr>currentPage := 3\<rparr>"]
  by (simp add: wizard_def)

text \<open>
  C5, as the code has it: \<open>nextPageParam\<close> is the empty string when
  \<open>currentPage == lastPage\<close> or when there is no page manager; when there are page
  managers, \<open>currentPage\<close> differs from \<open>lastPage\<close> and page \<open>currentPage + 1\<close> exists, it
  is \<open>getPageParam\<close> of \<open>currentPage + 1\<close> and the heading text of that page.
  \<open>prevPageParam\<close> is the empty string when \<open>currentPage <= 1\<close> or when there is no page
  manager; when there are page managers, \<open>currentPage > 1\<close> and page \<open>currentPage - 1\<close>
  exists, it is \<open>getPageParam\<close> of \<open>currentPage - 1\<close> and the heading text of that page.
\<close>

theorem page_params:
  "((pageManagers m = [] \<or> lastPage m = Some (currentPage m)) \<longrightarrow>
      nextPageParam getPageParam m = Inr []) \<and>
   (pageManagers m \<noteq> [] \<and> lastPage m \<noteq> Some (currentPage m) \<and>
      0 \<le> currentPage m \<and> currentPage m < int (length (pageManagers m)) \<longrightarrow>
      nextPageParam getPageParam m =
        Inr (getPageParam (currentPage m + 1)
               (pageHeadingText (pageManagers m ! nat (currentPage m))))) \<and>
   ((pageManagers m = [] \<or> currentPage m \<le> 1) \<longrightarrow>
      prevPageParam getPageParam m = Inr []) \<and>
   (pageManagers m \<noteq> [] \<and> 1 < currentPage m \<and>
      currentPage m - 2 < int (length (pageManagers m)) \<longrightarrow>
      prevPageParam getPageParam m =
        Inr (getPageParam (currentPage m - 1)
               (pageHeadingText (pageManagers m ! nat (currentPage m - 2)))))"
  by (auto simp: nextPageParam_def prevPageParam_def js_index_def)

theorem page_params_witness:
  "nextPageParam heading_formatter wizard = Inr ''page-Second'' \<and>
   prevPageParam heading_formatter wizard = Inr [] \<and>
   nextPageParam heading_formatter (wizard\<lparr>currentPage := 2\<rparr>) = Inr [] \<and>
   prevPageParam heading_formatter (wizard\<lparr>currentPage := 2\<rparr>) = Inr ''page-First'' \<and>
   nextPageParam heading_formatter (new_manager 1) = Inr [] \<and>
   prevPageParam heading_formatter (new_manager 2) = Inr []"
  using page_params [of wizard heading_formatter]
        page_params [of "wizard\<lparr>currentPage := 2\<rparr>" heading_formatter]
        page_params [of "new_manager 1" heading_formatter]
        page_params [of "new_manager 2" heading_formatter]
  by (simp add: wizard_def new_manager_def heading_formatter_def first_page_def
        second_page_def)

text \<open>
  C5 as the spec states it fails before the page managers exist: on the component as
  constructed and shown at page 1, \<open>currentPage\<close> differs from \<open>lastPage\<close> and there is no
  page 2, and \<open>nextPageParam\<close> is the empty string; shown at page 2, \<open>currentPage > 1\<close>
  and there is no page 1, and \<open>prevPageParam\<close> is the empty string.
\<close>

theorem page_params_counterexample:
  "lastPage (new_manager 1) \<noteq> Some (currentPage (new_manager 1)) \<and>
   js_index (pageManagers (new_manager 1)) (currentPage (new_manager 1)) = None \<and>
   nextPageParam heading_formatter (new_manager 1) = Inr [] \<and>
   \<not> currentPage (new_manager 2) \<le> 1 \<and>
   js_index (pageManagers (new_manager 2)) (currentPage (new_manager 2) - 2) = None \<and>
   prevPageParam heading_formatter (new_manager 2) = Inr []"
  by (simp add: new_manager_def nextPageParam_def prevPageParam_def js_index_def)

text \<open>
  C6: \<open>isValid\<close> holds exactly when \<open>pageIsValid\<close> is true on every page manager; it does
  not depend on \<open>currentPage\<close>; and after \<open>pageIsValid\<close> of the page at index \<open>i\<close> is set
  to \<open>v\<close>, it holds exactly when \<open>v\<close> is true and every other page is valid.
\<close>

theorem isValid_all_pages:
  "(isValid m \<longleftrightarrow> (\<forall>pm \<in> set (pageManagers m). pageIsValid pm = Some True)) \<and>
   isValid (m\<lparr>currentPage := page\<rparr>) = isValid m \<and>
   (i < length (pageManagers m) \<longrightarrow>
      (isValid (m\<lparr>pageManagers :=
                   (pageManagers m)[i := (pageManagers m ! i)\<lparr>pageIsValid := v\<rparr>]\<rparr>) \<longleftrightarrow>
       v = Some True \<and>
       (\<forall>j < length (pageManagers m). j \<noteq> i \<longrightarrow>
          pageIsValid (pageManagers m ! j) = Some True)))"
proof (intro conjI impI)
  show "isValid m \<longleftrightarrow> (\<forall>pm \<in> set (pageManagers m). pageIsValid pm = Some True)"
    by (rule isValid_iff)
  show "isValid (m\<lparr>currentPage := page\<rparr>) = isValid m"
    by (simp add: isValid_def)
next
  let ?pms = "pageManagers m"
  assume i: "i < length ?pms"
  have "isValid (m\<lparr>pageManagers := ?pms[i := (?pms ! i)\<lparr>pageIsValid := v\<rparr>]\<rparr>) \<longleftrightarrow>
        (\<forall>j < length ?pms. pageIsValid (?pms[i := (?pms ! i)\<lparr>pageIsValid := v\<rparr>] ! j) = Some True)"
    by (simp add: isValid_def list_all_length Boolean_iff)
  also have "\<dots> \<longleftrightarrow> v = Some True \<and> (\<forall>j < length ?pms. j \<noteq> i \<longrightarrow> pageIsValid (?pms ! j) = Some True)"
    using i by (auto simp: nth_list_update)
  finally show "isValid (m\<lparr>pageManagers := ?pms[i := (?pms ! i)\<lparr>pageIsValid := v\<rparr>]\<rparr>) \<longleftrightarrow>
        v = Some True \<and> (\<forall>j < length ?pms. j \<noteq> i \<longrightarrow> pageIsValid (?pms ! j) = Some True)" .
qed

theorem isValid_all_pages_witness:
  "\<not> isValid wizard \<and>
   (1::nat) < length (pageManagers wizard) \<and>
   isValid (wizard\<lparr>pageManagers :=
              (pageManagers wizard)[1 := (pageManagers wizard ! 1)\<lparr>pageIsValid := Some True\<rparr>]\<rparr>)"
  using isValid_all_pages [of wizard 1 1 "Some True"]
  by (simp add: wizard_def first_page_def second_page_def less_Suc_eq)

text \<open>
  C10: with no page manager \<open>isValid\<close> is true; so it is on the component as constructed,
  and an initialisation that fails leaves \<open>pageManagers\<close> as it was.
\<close>

theorem isValid_without_pages:
  "(pageManagers m = [] \<longrightarrow> isValid m) \<and>
   isValid (new_manager page) \<and>
   (fst (initializePageManagers getPages newPageManager modelTaskInstance m) \<noteq> Inr () \<longrightarrow>
      pageManagers (fst (snd (initializePageManagers getPages newPageManager modelTaskInstance m)))
        = pageManagers m)"
  by (auto simp: isValid_def new_manager_def initializePageManagers_def Let_def
           split: option.splits sum.splits)

theorem isValid_without_pages_witness:
  "pageManagers (new_manager 1) = [] \<and> isValid (new_manager 1) \<and>
   fst (initializePageManagers (\<lambda>blocks. [blocks]) (\<lambda>page responses. first_page)
          (Some (Inl (Rejected ''not found''))) (new_manager 1)) \<noteq> Inr () \<and>
   isValid (fst (snd (initializePageManagers (\<lambda>blocks. [blocks]) (\<lambda>page responses. first_page)
          (Some (Inl (Rejected ''not found''))) (new_manager 1))))"
  using isValid_without_pages [of "new_manager 1" 1 "\<lambda>blocks. [blocks]"
          "\<lambda>page responses. first_page" "Some (Inl (Rejected ''not found''))"]
  by (simp add: new_manager_def initializePageManagers_def isValid_def)

section \<open>Properties of the tasks\<close>

text \<open>
  C7: when \<open>save()\<close> of the draft rejects during \<open>submitDraftRegistration\<close>, the task ends
  with that error, \<open>save()\<close> was called once, and the manager is as it was before, so
  \<open>isValid\<close> and \<open>currentPage\<close> are unchanged; a later submission whose \<open>save()\<close> resolves
  succeeds.
\<close>

theorem submit_rejected:
  assumes "draftRegistration m = Some d" and "save d = Some e"
  shows "submitDraftRegistration save m = (Inl e, m, [d]) \<and>
         isValid (fst (snd (submitDraftRegistration save m))) = isValid m \<and>
         currentPage (fst (snd (submitDraftRegistration save m))) = currentPage m \<and>
         (save' d = None \<longrightarrow>
            fst (submitDraftRegistration save' (fst (snd (submitDraftRegistration save m))))
              = Inr ())"
  using assms by (simp add: submitDraftRegistration_def)

theorem submit_rejected_witness:
  "draftRegistration wizard = Some fresh_draft \<and>
   save_rejects fresh_draft = Some (Rejected ''save failed'') \<and>
   save_resolves fresh_draft = None \<and>
   submitDraftRegistration save_rejects wizard = (Inl (Rejected ''save failed''), wizard, [fresh_draft]) \<and>
   fst (submitDraftRegistration save_resolves
          (fst (snd (submitDraftRegistration save_rejects wizard)))) = Inr ()"
proof -
  have d: "draftRegistration wizard = Some fresh_draft"
    by (simp add: wizard_def)
  have r: "save_rejects fresh_draft = Some (Rejected ''save failed'')"
    by (simp add: save_rejects_def)
  have s: "save_resolves fresh_draft = None"
    by (simp add: save_resolves_def)
  from submit_rejected [of wizard fresh_draft save_rejects "Rejected ''save failed''"
         save_resolves, OF d r] d r s
  show ?thesis
    by auto
qed

text \<open>
  C8: an initialisation completes exactly when the draft, its schema and the blocks are
  fetched; then \<open>updateRoute\<close> was called once, with the heading text of the first page
  manager, when the blocks give at least one page, and was not called when they give none.
\<close>

theorem updateRoute_once:
  "(modelTaskInstance = Some (Inr draft) \<and> registrationSchema draft = Inr schema \<and>
    schemaBlocks schema = Inr blocks \<longrightarrow>
      fst (initializePageManagers getPages newPageManager modelTaskInstance m) = Inr () \<and>
      snd (snd (initializePageManagers getPages newPageManager modelTaskInstance m)) =
        (case getPages blocks of
           [] \<Rightarrow> []
         | page # _ \<Rightarrow> [pageHeadingText (newPageManager page (draftResponses draft))])) \<and>
   (fst (initializePageManagers getPages newPageManager modelTaskInstance m) = Inr () \<longrightarrow>
      (\<exists>draft schema blocks.
         modelTaskInstance = Some (Inr draft) \<and> registrationSchema draft = Inr schema \<and>
         schemaBlocks schema = Inr blocks))"
  by (auto simp: initializePageManagers_def Let_def split: option.splits sum.splits list.splits)

theorem updateRoute_once_witness:
  "registrationSchema fresh_draft = Inr \<lparr>schemaBlocks = Inr []\<rparr> \<and>
   initializePageManagers (\<lambda>blocks. [blocks, blocks]) (\<lambda>page responses. first_page)
     (Some (Inr fresh_draft)) (new_manager 1) =
     (Inr (),
      \<lparr>draftRegistration = Some fresh_draft, currentPage = 1, lastPage = Some 2,
       registrationResponses = Map.empty, pageManagers = [first_page, first_page]\<rparr>,
      [Some ''First'']) \<and>
   snd (snd (initializePageManagers (\<lambda>blocks. []) (\<lambda>page responses. first_page)
     (Some (Inr fresh_draft)) (new_manager 1))) = []"
  using updateRoute_once [of "Some (Inr fresh_draft)" fresh_draft "\<lparr>schemaBlocks = Inr []\<rparr>" "[]"
          "\<lambda>blocks. [blocks, blocks]" "\<lambda>page responses. first_page" "new_manager 1"]
        updateRoute_once [of "Some (Inr fresh_draft)" fresh_draft "\<lparr>schemaBlocks = Inr []\<rparr>" "[]"
          "\<lambda>blocks. []" "\<lambda>page responses. first_page" "new_manager 1"]
  by (simp add: initializePageManagers_def fresh_draft_def new_manager_def first_page_def)

section \<open>Properties of the file-list validator\<close>

text \<open>
  C9: without a node, or without a value, the predicate resolves to \<open>true\<close> and calls
  \<open>reload()\<close> on no file.
\<close>

theorem validateFileList_absent:
  "node = None \<or> newValue = None \<Longrightarrow> validateFileList reload node newValue = (Valid, [])"
  by (auto simp: validateFileList_def split: option.splits)

theorem validateFileList_absent_witness:
  "validateFileList reload_c_fails None (Some [file_a, file_b, file_c]) = (Valid, []) \<and>
   validateFileList reload_c_fails (Some project) None = (Valid, [])"
  using validateFileList_absent [of None "Some [file_a, file_b, file_c]" reload_c_fails]
        validateFileList_absent [of "Some project" None reload_c_fails]
  by simp

lemma classify_filter:
  "classify n fs (d, x) =
     (d @ map name (filter (\<lambda>f. \<not> isError f \<and> target f \<noteq> Some (node_id n)) fs),
      x @ map name (filter isError fs))"
  by (induction fs arbitrary: d x) auto

text \<open>
  The scenario of the three files: \<open>a\<close> belongs to the node, \<open>b\<close> to another node, and
  the reload of \<open>c\<close> fails. The result is the "detached" message naming \<open>b\<close> alone,
  followed by the "deleted" message naming \<open>c\<close> alone.
\<close>

lemma validateFileList_scenario:
  assumes "\<not> isError (reload a)" and "target (reload a) = Some (node_id n)"
    and "\<not> isError (reload b)" and "target (reload b) \<noteq> Some (node_id n)"
    and "isError (reload c)"
  shows "validateFileList reload (Some n) (Some [a, b, c]) =
           (Errors [detached_message n [name (reload b)], deleted_message n [name (reload c)]],
            [a, b, c])"
  using assms by (simp add: validateFileList_def)

text \<open>
  C3 at a file of a component of the node: \<open>file_d\<close> reloads without error and belongs
  to \<open>comp1\<close>, a descendant of the project. The validator compares the target of a file
  with the id of the node only, so it resolves to the one "detached" message, which names
  \<open>d.txt\<close> and says that it no longer belongs to this project or any of its registered
  components.
\<close>

theorem component_file_reported:
  "\<not> isError (reload_c_fails file_d) \<and>
   target (reload_c_fails file_d) = Some ''comp1'' \<and>
   ''comp1'' \<in> set (descendant_ids project) \<and>
   validateFileList reload_c_fails (Some project) (Some [file_d]) =
     (Errors [detached_message project [''d.txt'']], [file_d]) \<and>
   detached_message project [''d.txt''] =
     ''File(s) '' @ [CHR 0x22] @ ''d.txt'' @ [CHR 0x22] @
     '' no longer belong to this project or any of its registered components.''"
  by (simp add: validateFileList_def reload_c_fails_def file_d_def project_def
        detached_message_def projectOrComponent_def)

section \<open>Properties of the autosave\<close>

text \<open>
  When every group has a key, the loop ends normally and has written, under the key
  \<open>registrationResponseKey\<close>, the change-set value of the last group; in every case it
  leaves the other keys as they were.
\<close>

lemma merge_groups_last:
  "list_all (\<lambda>g. registrationResponseKey g \<noteq> None) groups \<Longrightarrow>
   merge_groups changeset groups responses =
     (Inr (),
      if groups = [] then responses
      else responses(''registrationResponseKey'' :=
             changeset (the (registrationResponseKey (last groups)))))"
  by (induction groups arbitrary: responses) (auto simp: changeset_get_def)

lemma merge_groups_other_key:
  "key \<noteq> ''registrationResponseKey'' \<Longrightarrow>
   snd (merge_groups changeset groups responses) key = responses key"
  by (induction groups arbitrary: responses)
     (auto simp: changeset_get_def split: option.splits)

text \<open>A group without a key makes the body throw before \<open>save()\<close> is called.\<close>

lemma onInput_body_keyless_group:
  "onInput_body save
     (wizard\<lparr>pageManagers :=
        [first_page\<lparr>schemaBlockGroups :=
           Some [q1_group\<lparr>registrationResponseKey := None\<rparr>]\<rparr>]\<rparr>) =
   (Inl TypeError,
    wizard\<lparr>pageManagers :=
        [first_page\<lparr>schemaBlockGroups :=
           Some [q1_group\<lparr>registrationResponseKey := None\<rparr>]\<rparr>]\<rparr>,
    [])"
  by (simp add: onInput_body_def currentPageManager_def js_index_def wizard_def
        first_page_def q1_group_def changeset_get_def)

text \<open>
  C1 at the wizard shown at its first page, with empty responses: the page has the one
  group with key \<open>q1\<close>, for which the change-set holds \<open>yes\<close>. After the body of
  \<open>onInput\<close> has run, the responses hold nothing under \<open>q1\<close> and hold \<open>yes\<close> under the key
  \<open>registrationResponseKey\<close>; that mapping is what \<open>save()\<close> was called with, once.
\<close>

theorem onInput_writes_literal_key:
  "currentPageManager wizard = Some first_page \<and>
   schemaBlockGroups first_page = Some [q1_group] \<and>
   registrationResponseKey q1_group = Some ''q1'' \<and>
   changeSet first_page ''q1'' = Some ''yes'' \<and>
   registrationResponses wizard = Map.empty \<and>
   fst (onInput_body save_resolves wizard) = Inr () \<and>
   registrationResponses (fst (snd (onInput_body save_resolves wizard))) ''q1'' = None \<and>
   registrationResponses (fst (snd (onInput_body save_resolves wizard)))
     ''registrationResponseKey'' = Some ''yes'' \<and>
   map (\<lambda>d. (draftResponses d ''q1'', draftResponses d ''registrationResponseKey''))
     (snd (snd (onInput_body save_resolves wizard))) = [(None, Some ''yes'')]"
  by (simp add: onInput_body_def currentPageManager_def js_index_def wizard_def
        first_page_def q1_group_def fresh_draft_def save_resolves_def changeset_get_def
        Let_def)

lemma onInput_body_ready:
  assumes "autosave_ready m"
  shows "length (snd (snd (onInput_body save m))) = 1 \<and>
         autosave_ready (fst (snd (onInput_body save m)))"
proof -
  from assms obtain pm groups d where
    pm: "currentPageManager m = Some pm" and g: "schemaBlockGroups pm = Some groups"
    and k: "list_all (\<lambda>g. registrationResponseKey g \<noteq> None) groups"
    and d: "draftRegistration m = Some d"
    by (auto simp: autosave_ready_def split: option.splits)
  from merge_groups_last [OF k] obtain responses where
    mg: "merge_groups (changeSet pm) groups (registrationResponses m) = (Inr (), responses)"
    by blast
  have c: "currentPageManager (m\<lparr>registrationResponses := r, draftRegistration := x\<rparr>) =
             currentPageManager m" for r x
    by (simp add: currentPageManager_def)
  from k show ?thesis
    by (cases "save (d\<lparr>draftResponses := responses\<rparr>)")
       (simp_all add: onInput_body_def pm g d mg Let_def autosave_ready_def c)
qed

lemma wake_ready:
  "autosave_ready m \<Longrightarrow>
   length (snd (wake save ws m)) = length ws \<and> autosave_ready (fst (wake save ws m))"
proof (induction ws arbitrary: m)
  case Nil
  then show ?case by simp
next
  case (Cons w ws)
  obtain r m' saved where b: "onInput_body save m = (r, m', saved)"
    by (cases "onInput_body save m") auto
  with Cons.prems onInput_body_ready [of m save]
  have l: "length saved = 1" and r: "autosave_ready m'"
    by simp_all
  obtain m'' saved' where w: "wake save ws m' = (m'', saved')"
    by (cases "wake save ws m'") auto
  with Cons.IH [OF r] have "length saved' = length ws" and "autosave_ready m''"
    by simp_all
  with b w l show ?case
    by simp
qed

text \<open>
  With a current page manager whose groups all have a key and with a draft, every input
  to a task without modifier leads to one call of \<open>save()\<close>, however close the inputs
  are to each other.
\<close>

lemma input_events_saves:
  "autosave_ready m \<Longrightarrow>
   length (snd (input_events save Unmodified ts sleeping m)) = length ts + length sleeping"
proof (induction ts arbitrary: sleeping m)
  case Nil
  then show ?case by (simp add: wake_ready)
next
  case (Cons t ts)
  let ?due = "filter (\<lambda>w. w \<le> t) sleeping"
  let ?rest = "filter (\<lambda>w. t < w) sleeping"
  obtain m' saved where w: "wake save ?due m = (m', saved)"
    by (cases "wake save ?due m") auto
  with Cons.prems wake_ready [of m save ?due]
  have s: "length saved = length ?due" and r: "autosave_ready m'"
    by simp_all
  obtain m'' saved' where
    e: "input_events save Unmodified ts (onInput_perform Unmodified t ?rest) m' = (m'', saved')"
    by (cases "input_events save Unmodified ts (onInput_perform Unmodified t ?rest) m'") auto
  with Cons.IH [OF r, of "onInput_perform Unmodified t ?rest"]
  have s': "length saved' = length ts + length (onInput_perform Unmodified t ?rest)"
    by simp
  have "length ?due + length ?rest = length sleeping"
    using sum_length_filter_compl [of "\<lambda>w. w \<le> t" sleeping] by (simp add: not_le)
  with w e s s' show ?case
    by simp
qed

lemma wizard_ready: "autosave_ready wizard"
  by (simp add: autosave_ready_def currentPageManager_def js_index_def wizard_def
        first_page_def q1_group_def)

text \<open>The same two inputs to a restartable task lead to one call of \<open>save()\<close>.\<close>

lemma restartable_two_inputs:
  "length (snd (input_events save_resolves Restartable [0, 100] [] wizard)) = 1"
  using wake_ready [OF wizard_ready, of save_resolves "[600]"] by simp

text \<open>
  C2 at two inputs 100 ms apart, on the wizard shown at its first page: \<open>save()\<close> is
  called twice.
\<close>

theorem two_inputs_two_saves:
  "autosave_ready wizard \<and>
   length (snd (input_events save_resolves onInput_modifier [0, 100] [] wizard)) = 2"
  using input_events_saves [OF wizard_ready, of save_resolves "[0, 100]" "[]"] wizard_ready
  by (simp add: onInput_modifier_def)

end
